theory Spec2Isabelle
  imports Complex_Main
begin

section \<open>Arrays\<close>

text \<open>
  The evaluation code of \<^verbatim>\<open>src/evaluations/metrics.py\<close> works on NumPy arrays and
  PyTorch tensors. An array is modelled the way both libraries store it: a shape and
  the elements in row-major order. The \<open>kind\<close> field is the Python type of the
  container, which the assertions of the metric functions compare.

  Array elements are exact numbers (\<open>real\<close>): the rounding of IEEE doubles is not part
  of the model. Boolean arrays are \<open>bool ndarray\<close>, integer arrays \<open>int ndarray\<close>.
\<close>

datatype error =
    AssertionError string
  | ValueError string
  | IndexError string
  | TypeError string
  | KeyError string
  | ZeroDivisionError
  | RuntimeError string
  | LoadError string
  | CvError string

datatype array_kind = NumpyArray | TorchTensor

record 'a ndarray =
  kind :: array_kind
  shape :: "nat list"
  data :: "'a list"

definition well_formed :: "'a ndarray \<Rightarrow> bool" where
  "well_formed a = (length (data a) = prod_list (shape a))"

definition amap :: "('a \<Rightarrow> 'b) \<Rightarrow> 'a ndarray \<Rightarrow> 'b ndarray" where
  "amap f a = \<lparr>kind = kind a, shape = shape a, data = map f (data a)\<rparr>"

text \<open>Python's \<open>for x in a\<close> and \<open>zip(a, b)\<close> walk an array along its first axis;
  a 0-dimensional array cannot be iterated.\<close>

definition iter0 :: "'a ndarray \<Rightarrow> error + 'a ndarray list" where
  "iter0 a =
     (case shape a of
        [] \<Rightarrow> Inl (TypeError ''iteration over a 0-d array'')
      | n # rest \<Rightarrow>
          Inr (map (\<lambda>i. \<lparr>kind = kind a, shape = rest,
                          data = take (prod_list rest) (drop (i * prod_list rest) (data a))\<rparr>)
                   [0..<n]))"

text \<open>
  Errors are values: a function that can raise returns \<open>error + 'a\<close>, and \<open>ebind\<close>
  passes the first error on.
\<close>

definition ebind :: "error + 'a \<Rightarrow> ('a \<Rightarrow> error + 'b) \<Rightarrow> error + 'b" where
  "ebind m f = (case m of Inl e \<Rightarrow> Inl e | Inr x \<Rightarrow> f x)"

text \<open>
  Positions in the row-major element list: \<open>unravel\<close> turns a flat position into an
  index tuple of the given shape, \<open>ravel\<close> is its inverse. Every operation below
  builds its result by reading the operand's elements at computed positions.
\<close>

fun unravel :: "nat list \<Rightarrow> nat \<Rightarrow> nat list" where
  "unravel [] k = []"
| "unravel (d # ds) k = (k div prod_list ds) # unravel ds (k mod prod_list ds)"

fun ravel :: "nat list \<Rightarrow> nat list \<Rightarrow> nat" where
  "ravel (d # ds) (i # js) = i * prod_list ds + ravel ds js"
| "ravel _ _ = 0"

text \<open>
  Broadcasting as NumPy and PyTorch define it: shapes are aligned at their last axis,
  two extents are compatible when they are equal or one of them is 1, and an axis of
  extent 1 is repeated.
\<close>

definition pad_shape :: "nat \<Rightarrow> nat list \<Rightarrow> nat list" where
  "pad_shape n s = replicate (n - length s) 1 @ s"

definition bdim :: "nat \<Rightarrow> nat \<Rightarrow> nat option" where
  "bdim a b = (if a = b then Some a else if a = 1 then Some b else if b = 1 then Some a else None)"

definition broadcast_shapes :: "nat list \<Rightarrow> nat list \<Rightarrow> nat list option" where
  "broadcast_shapes s1 s2 =
     (let n = max (length s1) (length s2)
      in those (map2 bdim (pad_shape n s1) (pad_shape n s2)))"

definition broadcast_to :: "nat list \<Rightarrow> 'a ndarray \<Rightarrow> 'a list" where
  "broadcast_to rs a =
     (let ss = pad_shape (length rs) (shape a)
      in map (\<lambda>k. data a ! ravel ss (map2 (\<lambda>d i. if d = 1 then 0 else i) ss (unravel rs k)))
             [0..<prod_list rs])"

definition np_binop :: "('a \<Rightarrow> 'b \<Rightarrow> 'c) \<Rightarrow> 'a ndarray \<Rightarrow> 'b ndarray \<Rightarrow> error + 'c ndarray" where
  "np_binop f a b =
     (case broadcast_shapes (shape a) (shape b) of
        None \<Rightarrow> Inl (ValueError ''operands could not be broadcast together'')
      | Some rs \<Rightarrow>
          Inr \<lparr>kind = kind a, shape = rs,
               data = map2 f (broadcast_to rs a) (broadcast_to rs b)\<rparr>)"

text \<open>
  Reductions along one axis (\<^verbatim>\<open>sum\<close>, \<^verbatim>\<open>mean\<close>), an integer index and a slice
  \<^verbatim>\<open>lo:hi\<close> on one axis.
\<close>

definition reduce_axis :: "('a list \<Rightarrow> 'b) \<Rightarrow> nat \<Rightarrow> bool \<Rightarrow> 'a ndarray \<Rightarrow> error + 'b ndarray" where
  "reduce_axis f axis keepdims a =
     (if length (shape a) \<le> axis then Inl (ValueError ''axis is out of bounds'')
      else
        (let outer = prod_list (take axis (shape a));
             d = shape a ! axis;
             inner = prod_list (drop (Suc axis) (shape a))
         in Inr \<lparr>kind = kind a,
                 shape = take axis (shape a) @ (if keepdims then [1] else [])
                           @ drop (Suc axis) (shape a),
                 data = map (\<lambda>k. f (map (\<lambda>j. data a ! ((k div inner * d + j) * inner + k mod inner))
                                         [0..<d]))
                            [0..<outer * inner]\<rparr>))"

definition index_axis :: "nat \<Rightarrow> nat \<Rightarrow> 'a ndarray \<Rightarrow> error + 'a ndarray" where
  "index_axis axis i a =
     (if length (shape a) \<le> axis then Inl (IndexError ''too many indices for array'')
      else if shape a ! axis \<le> i then Inl (IndexError ''index is out of bounds'')
      else
        (let outer = prod_list (take axis (shape a));
             d = shape a ! axis;
             inner = prod_list (drop (Suc axis) (shape a))
         in Inr \<lparr>kind = kind a,
                 shape = take axis (shape a) @ drop (Suc axis) (shape a),
                 data = map (\<lambda>k. data a ! ((k div inner * d + i) * inner + k mod inner))
                            [0..<outer * inner]\<rparr>))"

definition slice_axis :: "nat \<Rightarrow> nat \<Rightarrow> nat option \<Rightarrow> 'a ndarray \<Rightarrow> error + 'a ndarray" where
  "slice_axis axis lo hi a =
     (if length (shape a) \<le> axis then Inl (IndexError ''too many indices for array'')
      else
        (let outer = prod_list (take axis (shape a));
             d = shape a ! axis;
             inner = prod_list (drop (Suc axis) (shape a));
             stop = (case hi of None \<Rightarrow> d | Some h \<Rightarrow> min h d);
             start = min lo stop;
             d' = stop - start
         in Inr \<lparr>kind = kind a,
                 shape = take axis (shape a) @ [d'] @ drop (Suc axis) (shape a),
                 data = map (\<lambda>k. data a ! ((k div (d' * inner) * d + start) * inner
                                             + k mod (d' * inner)))
                            [0..<outer * d' * inner]\<rparr>))"

definition reshape :: "nat list \<Rightarrow> 'a ndarray \<Rightarrow> 'a ndarray" where
  "reshape s a = \<lparr>kind = kind a, shape = s, data = data a\<rparr>"

section \<open>Region masks\<close>

text \<open>
  \<^verbatim>\<open>region_specific_metrics\<close> (metrics.py, lines 39-54) derives a mask from the label
  map and hands it to the metric function. The comparisons give boolean arrays, on
  which \<open>+\<close> is the logical or. In the \<open>WT\<close> branch the source reads
  \<^verbatim>\<open>(...) > 0 * 1\<close>: the product binds tighter than the comparison, so that mask stays
  a boolean array, while the other two are integer arrays. All three are passed on as
  numbers (\<open>True\<close> is 1, \<open>False\<close> is 0).
\<close>

definition np_eq :: "real ndarray \<Rightarrow> real \<Rightarrow> bool ndarray" where
  "np_eq a c = amap (\<lambda>x. x = c) a"

definition bool_add :: "bool ndarray \<Rightarrow> bool ndarray \<Rightarrow> bool ndarray" where
  "bool_add a b = \<lparr>kind = kind a, shape = shape a, data = map2 (\<or>) (data a) (data b)\<rparr>"

definition bool_gt :: "bool ndarray \<Rightarrow> int \<Rightarrow> bool ndarray" where
  "bool_gt a n = amap (\<lambda>b. of_bool b > n) a"

definition bool_mul :: "bool ndarray \<Rightarrow> int \<Rightarrow> int ndarray" where
  "bool_mul a n = amap (\<lambda>b. of_bool b * n) a"

definition region_masks :: "string \<Rightarrow> real ndarray \<Rightarrow> error + real ndarray" where
  "region_masks region_type targets =
     (if region_type \<notin> set [''ET'', ''TC'', ''WT'']
      then Inl (AssertionError ''region type should be one of ET, TC, WT'')
      else if region_type = ''ET''
      then Inr (amap of_int (bool_mul (np_eq targets 1) 1))
      else if region_type = ''TC''
      then Inr (amap of_int
             (bool_mul (bool_gt (bool_add (np_eq targets 1) (np_eq targets 4)) 0) 1))
      else Inr (amap of_bool
             (bool_gt (bool_add (bool_add (np_eq targets 1) (np_eq targets 2))
                                (np_eq targets 4)) (0 * 1))))"

definition region_specific_metrics ::
  "real ndarray \<Rightarrow> real ndarray \<Rightarrow> (real ndarray \<Rightarrow> real ndarray \<Rightarrow> error + 'r) \<Rightarrow>
   string \<Rightarrow> error + 'r" where
  "region_specific_metrics targets images func region_type =
     (case region_masks region_type targets of
        Inl e \<Rightarrow> Inl e
      | Inr masks \<Rightarrow> func masks images)"

section \<open>Dice coefficient\<close>

text \<open>
  \<^verbatim>\<open>dice_coeff\<close> (metrics.py, lines 12-37). The loop variable \<open>dice\<close> is a float once
  the first sample has been added. A float division by zero does not raise in NumPy
  or PyTorch: it gives \<open>inf\<close> or \<open>nan\<close>, which every later sum and quotient keeps
  non-finite. A float result is therefore a \<open>real option\<close>, \<open>None\<close> standing for
  a non-finite value. The final division by \<^verbatim>\<open>images.shape[0]\<close> is a division of
  the Python integer 0 by the integer 0 when the batch is empty, which raises.

  Line 29 takes \<^verbatim>\<open>torch.dot\<close> for tensors and \<^verbatim>\<open>np.dot\<close> for arrays. \<^verbatim>\<open>np.dot\<close>
  accepts operands of any two numeric element types; \<^verbatim>\<open>torch.dot\<close> raises when the
  element types of its operands differ. Arrays carry no element type here, so whether
  the element types of the (masked) prediction and of the target agree is the
  parameter \<open>same_dtype\<close>.
\<close>

type_synonym npfloat = "real option"


definition np_fadd :: "npfloat \<Rightarrow> npfloat \<Rightarrow> npfloat" where
  "np_fadd a b = (case a of None \<Rightarrow> None | Some x \<Rightarrow> map_option (\<lambda>y. x + y) b)"









section \<open>AUROC\<close>

text \<open>
  \<^verbatim>\<open>AUROC\<close> (metrics.py, lines 56-85). \<^verbatim>\<open>roc_auc_score\<close> belongs to scikit-learn and
  is a parameter of the model; it raises when the target holds one class only. For a
  tensor the target is converted to unsigned bytes first: the conversion drops the
  fraction and, on the usual platforms, wraps modulo 256.
\<close>

definition trunc :: "real \<Rightarrow> int" where
  "trunc x = (if 0 \<le> x then \<lfloor>x\<rfloor> else \<lceil>x\<rceil>)"

definition to_uint8 :: "real \<Rightarrow> nat" where
  "to_uint8 x = nat (trunc x mod 256)"

fun AUROC_loop ::
  "(real list \<Rightarrow> real list \<Rightarrow> error + real) \<Rightarrow> bool \<Rightarrow> real \<Rightarrow>
   (real ndarray \<times> real ndarray) list \<Rightarrow> real \<Rightarrow> error + real" where
  "AUROC_loop roc_auc_score is_tensor threshold [] score = Inr score"
| "AUROC_loop roc_auc_score is_tensor threshold ((img, tgt) # rest) score =
     (let target = (if is_tensor then map (\<lambda>x. real (to_uint8 x)) (data tgt) else data tgt)
      in if sum_list target \<le> threshold
         then AUROC_loop roc_auc_score is_tensor threshold rest (- 1)
         else (case roc_auc_score target (data img) of
                 Inl e \<Rightarrow> Inl e
               | Inr r \<Rightarrow> AUROC_loop roc_auc_score is_tensor threshold rest (score + r)))"

definition AUROC ::
  "(real list \<Rightarrow> real list \<Rightarrow> error + real) \<Rightarrow> real ndarray \<Rightarrow> real ndarray \<Rightarrow> real \<Rightarrow>
   error + real" where
  "AUROC roc_auc_score targets images threshold =
     (if \<not> (shape images = shape targets \<and> kind images = kind targets)
      then Inl (AssertionError ''the input and target images should share the same shape and type'')
      else
        (case iter0 images of
           Inl e \<Rightarrow> Inl e
         | Inr is \<Rightarrow>
             (case iter0 targets of
                Inl e \<Rightarrow> Inl e
              | Inr ts \<Rightarrow>
                  (case AUROC_loop roc_auc_score (kind images = TorchTensor) threshold
                          (zip is ts) 0 of
                     Inl e \<Rightarrow> Inl e
                   | Inr score \<Rightarrow>
                       if hd (shape images) = 0 then Inl ZeroDivisionError
                       else Inr (score / real (hd (shape images)))))))"

definition default_threshold :: real where
  "default_threshold = 200"

section \<open>Binarisation against a threshold\<close>

text \<open>
  The two entry points of metrics.py binarise a score map differently: the mask
  function of \<^verbatim>\<open>finding_threshold\<close> ends with \<^verbatim>\<open>(pred > thresh) * 1.0\<close> (line 249), the
  one of \<^verbatim>\<open>using_thresh\<close> is \<^verbatim>\<open>(pred >= thresh) * 1.0\<close> (line 283).
\<close>

definition binarize_gt :: "real \<Rightarrow> real ndarray \<Rightarrow> real ndarray" where
  "binarize_gt thresh pred = amap (\<lambda>p. of_bool (p > thresh) * 1) pred"

definition using_thresh_mask_fn :: "real \<Rightarrow> real ndarray \<Rightarrow> real ndarray" where
  "using_thresh_mask_fn thresh pred = amap (\<lambda>p. of_bool (p \<ge> thresh) * 1) pred"

section \<open>Non-zero masking\<close>

text \<open>
  \<^verbatim>\<open>nonzero_masking\<close> (metrics.py, lines 90-122). For a tensor the channel axis is 1
  and the spatial axes are \<^verbatim>\<open>shape[2:]\<close>, for a NumPy array the channel axis is 3 and
  the spatial axes are \<^verbatim>\<open>shape[1:3]\<close>. The model returns the masked targets together
  with the mask; the source returns the mask only on request.
\<close>

definition np_min :: "real ndarray \<Rightarrow> error + real" where
  "np_min a =
     (if data a = [] then Inl (ValueError ''zero-size array to reduction operation minimum'')
      else Inr (min_list (data a)))"

definition nonzero_masking ::
  "real ndarray \<Rightarrow> real ndarray \<Rightarrow> error + (real ndarray \<times> real ndarray)" where
  "nonzero_masking images targets =
     (if kind images \<noteq> kind targets
      then Inl (AssertionError ''the input and target images should share the same and type'')
      else if \<not> (if kind images = TorchTensor
                  then drop 2 (shape images) = drop 2 (shape targets)
                  else take 2 (drop 1 (shape images)) = take 2 (drop 1 (shape targets)))
      then Inl (AssertionError ''the input and target images should share the same shape(H,W)'')
      else
        ebind (np_min images) (\<lambda>m.
        ebind (reduce_axis sum_list (if kind images = TorchTensor then 1 else 3) True
                 (amap (\<lambda>x. of_bool (x > m * 1)) images)) (\<lambda>count :: nat ndarray.
        let mask = amap (\<lambda>c. of_bool (c = 4) * 1) count in
        ebind (np_binop (*) targets mask) (\<lambda>kept.
        ebind (np_min targets) (\<lambda>tmin.
        ebind (np_binop (+) kept (amap (\<lambda>x. tmin * x) (amap (\<lambda>x. 1 - x) mask))) (\<lambda>targets'.
        Inr (targets', mask)))))))"

text \<open>
  What "all channels of the pixel exceed the minimum" means for an image with four
  channels in the last axis; used to state what the mask is for such images.
\<close>

definition foreground :: "real ndarray \<Rightarrow> nat \<Rightarrow> bool" where
  "foreground images p =
     list_all (\<lambda>c. data images ! (p * 4 + c) > min_list (data images)) [0..<4]"

section \<open>Sample files and the anomaly score map\<close>

text \<open>
  A sample file holds one array. \<^verbatim>\<open>evaluate_images\<close> (metrics.py, lines 159-162) and
  \<^verbatim>\<open>evaluate_image\<close> (evaluate.py, lines 67-70) cut it up the same way:
  \<^verbatim>\<open>img = data[np.newaxis,0,:,:,:4]*1.0/255.0\<close>,
  \<^verbatim>\<open>seg = np.expand_dims(data[0,:,:,4], axis=(0,-1))\<close>,
  \<^verbatim>\<open>generated = data[np.newaxis,0,:,:,5:]*1.0/255.0\<close> and
  \<^verbatim>\<open>pred = np.expand_dims(np.mean(np.sqrt((generated-img)**2), axis=3), axis=-1)\<close>.
  The mean is taken over an axis that has four entries whenever the subtraction
  succeeds.
\<close>

definition newaxis0 :: "'a ndarray \<Rightarrow> 'a ndarray" where
  "newaxis0 a = reshape (1 # shape a) a"

definition expand_last :: "'a ndarray \<Rightarrow> 'a ndarray" where
  "expand_last a = reshape (shape a @ [1]) a"

definition np_mean :: "real list \<Rightarrow> real" where
  "np_mean xs = sum_list xs / real (length xs)"

definition sample_img :: "real ndarray \<Rightarrow> error + real ndarray" where
  "sample_img d =
     ebind (index_axis 0 0 d) (\<lambda>a.
     ebind (slice_axis 2 0 (Some 4) a) (\<lambda>b.
     Inr (amap (\<lambda>x. x * 1 / 255) (newaxis0 b))))"

definition sample_seg :: "real ndarray \<Rightarrow> error + real ndarray" where
  "sample_seg d =
     ebind (index_axis 0 0 d) (\<lambda>a.
     ebind (index_axis 2 4 a) (\<lambda>b.
     Inr (expand_last (newaxis0 b))))"

definition sample_generated :: "real ndarray \<Rightarrow> error + real ndarray" where
  "sample_generated d =
     ebind (index_axis 0 0 d) (\<lambda>a.
     ebind (slice_axis 2 5 None a) (\<lambda>b.
     Inr (amap (\<lambda>x. x * 1 / 255) (newaxis0 b))))"

definition score_map :: "real ndarray \<Rightarrow> real ndarray \<Rightarrow> error + real ndarray" where
  "score_map img generated =
     ebind (np_binop (-) generated img) (\<lambda>diff.
     ebind (reduce_axis np_mean 3 False (amap (\<lambda>x. sqrt (x ^ 2)) diff)) (\<lambda>m.
     Inr (expand_last m)))"

definition anomaly_score :: "real ndarray \<Rightarrow> error + real ndarray" where
  "anomaly_score d =
     ebind (sample_img d) (\<lambda>img.
     ebind (sample_seg d) (\<lambda>seg.
     ebind (sample_generated d) (\<lambda>generated.
     score_map img generated)))"

section \<open>Threshold selection by Otsu's method\<close>

text \<open>
  The mask function of \<^verbatim>\<open>finding_threshold\<close> (metrics.py, lines 244-253; the same
  function is in evaluate.py, lines 57-66) picks the scores inside the mask, converts
  them to unsigned bytes and calls \<^verbatim>\<open>cv2.threshold(masked_pred, 0, 255, cv2.THRESH_OTSU)\<close>.
  That routine belongs to OpenCV. Its threshold search is modelled after OpenCV's
  \<^verbatim>\<open>getThreshVal_Otsu_8u\<close>: a histogram \<open>h\<close> of 256 bins, \<open>scale = 1 / size\<close>, the
  mean \<open>mu\<close>, and one pass over the bins that keeps the first bin at which the
  between-class variance \<open>sigma\<close> exceeds the largest value seen so far. A bin at
  which one class has a share below \<^verbatim>\<open>FLT_EPSILON\<close> is skipped after \<open>mu1\<close> and \<open>q1\<close>
  have been updated. The arithmetic is exact here; the library computes in double
  precision, so where several bins give the same variance, or nearly the same, its
  rounding can select another of them. A selection of one pixel reaches the library
  as a 0-dimensional array and is taken as a source of one byte.

  Whether OpenCV accepts an empty source is left open: \<open>empty_ok\<close> says so. If it
  does, no bin is selected and the threshold is 0.

  \<^verbatim>\<open>pred[np.where(mask > 0)]\<close> reads \<open>pred\<close> at the index tuples of the positive
  entries of the mask, in row-major order; an index tuple shorter than the shape of
  \<open>pred\<close> selects a whole block. The conversion \<^verbatim>\<open>astype(np.uint8)\<close> is \<open>to_uint8\<close>.
\<close>

definition FLT_EPSILON :: real where
  "FLT_EPSILON = 1 / 2 ^ 23"

record otsu_state =
  mu1 :: real
  q1 :: real
  max_sigma :: real
  max_val :: nat

definition otsu_step :: "nat list \<Rightarrow> real \<Rightarrow> real \<Rightarrow> otsu_state \<Rightarrow> nat \<Rightarrow> otsu_state" where
  "otsu_step h scale mu s i =
     (let p_i = real (h ! i) * scale;
          mu1a = mu1 s * q1 s;
          q1a = q1 s + p_i;
          q2 = 1 - q1a
      in if min q1a q2 < FLT_EPSILON \<or> max q1a q2 > 1 - FLT_EPSILON
         then s\<lparr>mu1 := mu1a, q1 := q1a\<rparr>
         else
           (let mu1b = (mu1a + real i * p_i) / q1a;
                mu2 = (mu - q1a * mu1b) / q2;
                sigma = q1a * q2 * (mu1b - mu2) * (mu1b - mu2)
            in if sigma > max_sigma s
               then \<lparr>mu1 = mu1b, q1 = q1a, max_sigma = sigma, max_val = i\<rparr>
               else s\<lparr>mu1 := mu1b, q1 := q1a\<rparr>))"

definition getThreshVal_Otsu_8u :: "nat list \<Rightarrow> nat" where
  "getThreshVal_Otsu_8u src =
     (let h = map (\<lambda>i. count_list src i) [0..<256];
          scale = 1 / real (length src);
          mu = sum_list (map (\<lambda>i. real i * real (h ! i)) [0..<256]) * scale
      in max_val (foldl (otsu_step h scale mu)
                    \<lparr>mu1 = 0, q1 = 0, max_sigma = 0, max_val = 0\<rparr> [0..<256]))"

definition cv2_threshold_otsu :: "bool \<Rightarrow> nat list \<Rightarrow> error + nat" where
  "cv2_threshold_otsu empty_ok src =
     (if src = [] then (if empty_ok then Inr 0 else Inl (CvError ''empty source''))
      else Inr (getThreshVal_Otsu_8u src))"

definition np_where_select :: "real ndarray \<Rightarrow> real ndarray \<Rightarrow> error + real list" where
  "np_where_select pred msk =
     (let m = length (shape msk);
          lead = take m (shape pred);
          sub = prod_list (drop m (shape pred));
          idxs = map (unravel (shape msk))
                   (filter (\<lambda>k. data msk ! k > 0) [0..<prod_list (shape msk)])
      in if m = 0 then Inl (ValueError ''Calling nonzero on 0d arrays is not allowed'')
         else if length (shape pred) < m then Inl (IndexError ''too many indices for array'')
         else if list_ex (\<lambda>idx. \<not> list_all2 (<) idx lead) idxs
         then Inl (IndexError ''index is out of bounds'')
         else Inr (concat (map (\<lambda>idx. map (\<lambda>j. data pred ! (ravel lead idx * sub + j)) [0..<sub])
                               idxs)))"

definition finding_threshold_mask_fn ::
  "bool \<Rightarrow> real ndarray \<Rightarrow> real ndarray \<Rightarrow> error + (real \<times> real ndarray)" where
  "finding_threshold_mask_fn empty_ok pred msk =
     ebind (np_where_select pred msk) (\<lambda>masked_pred.
     ebind (cv2_threshold_otsu empty_ok (map (\<lambda>x. to_uint8 (x * 255)) masked_pred)) (\<lambda>thresh.
     Inr (real thresh / 255, binarize_gt (real thresh / 255) pred)))"

section \<open>Batch evaluator\<close>

text \<open>
  \<^verbatim>\<open>BratsEvaluator\<close> (metrics.py, lines 128-184). The metrics are a dictionary from
  names to functions of the label map and the prediction; a dictionary keeps its
  insertion order, so it is an association list. Reading a sample file is the
  parameter \<open>np_load\<close>, which returns the array or the error it raises. Nothing in
  \<^verbatim>\<open>evaluate_images\<close> catches an exception, so the first error ends the loop. The
  output file is assumed to be writable; the written table is the header and the list
  of rows, a row being the file name with the metric values of that sample.
\<close>

type_synonym metric_fn = "real ndarray \<Rightarrow> real ndarray \<Rightarrow> error + npfloat"

record evaluator =
  data_folder :: string
  metrics :: "(string \<times> metric_fn) list"
  data_files :: "string list"

definition path_join :: "string \<Rightarrow> string \<Rightarrow> string" where
  "path_join a b =
     (if b \<noteq> [] \<and> hd b = CHR ''/'' then b
      else if a = [] \<or> last a = CHR ''/'' then a @ b
      else a @ ''/'' @ b)"

fun compute_metrics ::
  "(string \<times> metric_fn) list \<Rightarrow> real ndarray \<Rightarrow> real ndarray \<Rightarrow> error + (string \<times> npfloat) list" where
  "compute_metrics [] seg pred = Inr []"
| "compute_metrics ((name, metric_fn) # rest) seg pred =
     (case metric_fn seg pred of
        Inl e \<Rightarrow> Inl e
      | Inr v \<Rightarrow>
          (case compute_metrics rest seg pred of
             Inl e \<Rightarrow> Inl e
           | Inr vs \<Rightarrow> Inr ((name, v) # vs)))"

definition sample_metrics ::
  "(string \<Rightarrow> error + real ndarray) \<Rightarrow> evaluator \<Rightarrow> string \<Rightarrow> error + (string \<times> npfloat) list" where
  "sample_metrics np_load ev file_name =
     ebind (np_load (path_join (data_folder ev) file_name)) (\<lambda>d.
     ebind (sample_img d) (\<lambda>img.
     ebind (sample_seg d) (\<lambda>seg.
     ebind (sample_generated d) (\<lambda>generated.
     ebind (score_map img generated) (\<lambda>pred.
     ebind (nonzero_masking img pred) (\<lambda>masked.
     compute_metrics (metrics ev) seg (fst masked)))))))"

record eval_state =
  csv_rows :: "(string \<times> (string \<times> npfloat) list) list"
  metrics_imgs :: "(string \<times> npfloat list) list"

fun append_metrics ::
  "(string \<times> npfloat list) list \<Rightarrow> (string \<times> npfloat) list \<Rightarrow> error + (string \<times> npfloat list) list" where
  "append_metrics [] metrics_img = Inr []"
| "append_metrics ((key, vs) # rest) metrics_img =
     (case map_of metrics_img key of
        None \<Rightarrow> Inl (KeyError key)
      | Some v \<Rightarrow>
          (case append_metrics rest metrics_img of
             Inl e \<Rightarrow> Inl e
           | Inr r \<Rightarrow> Inr ((key, vs @ [v]) # r)))"

fun evaluate_loop ::
  "(string \<Rightarrow> error + real ndarray) \<Rightarrow> evaluator \<Rightarrow> bool \<Rightarrow> string list \<Rightarrow> eval_state \<Rightarrow>
   error + eval_state" where
  "evaluate_loop np_load ev store_data [] st = Inr st"
| "evaluate_loop np_load ev store_data (file_name # rest) st =
     (case sample_metrics np_load ev file_name of
        Inl e \<Rightarrow> Inl e
      | Inr metrics_img \<Rightarrow>
          (case map_of metrics_img ''AUROC_WT'' of
             None \<Rightarrow> Inl (KeyError ''AUROC_WT'')
           | Some auroc \<Rightarrow>
               if auroc = Some (- 1) then evaluate_loop np_load ev store_data rest st
               else
                 (case append_metrics (metrics_imgs st) metrics_img of
                    Inl e \<Rightarrow> Inl e
                  | Inr appended \<Rightarrow>
                      evaluate_loop np_load ev store_data rest
                        \<lparr>csv_rows = csv_rows st
                            @ (if store_data then [(file_name, metrics_img)] else []),
                         metrics_imgs = appended\<rparr>)))"

definition np_mean_list :: "npfloat list \<Rightarrow> npfloat" where
  "np_mean_list vs =
     (case those vs of
        None \<Rightarrow> None
      | Some xs \<Rightarrow> if xs = [] then None else Some (sum_list xs / real (length xs)))"

definition np_std_list :: "npfloat list \<Rightarrow> npfloat" where
  "np_std_list vs =
     (case those vs of
        None \<Rightarrow> None
      | Some xs \<Rightarrow>
          if xs = [] then None
          else (let m = sum_list xs / real (length xs)
                in Some (sqrt (sum_list (map (\<lambda>x. \<bar>x - m\<bar> ^ 2) xs) / real (length xs)))))"

record eval_result =
  header :: "string list option"
  rows :: "(string \<times> (string \<times> npfloat) list) list"
  metric_lists :: "(string \<times> npfloat list) list"
  summary :: "(string \<times> npfloat \<times> npfloat) list"

definition evaluate_images ::
  "(string \<Rightarrow> error + real ndarray) \<Rightarrow> evaluator \<Rightarrow> bool \<Rightarrow> error + eval_result" where
  "evaluate_images np_load ev store_data =
     (case evaluate_loop np_load ev store_data (data_files ev)
             \<lparr>csv_rows = [], metrics_imgs = map (\<lambda>m. (fst m, [])) (metrics ev)\<rparr> of
        Inl e \<Rightarrow> Inl e
      | Inr st \<Rightarrow>
          Inr \<lparr>header = (if store_data
                          then Some (''file_name'' # ''threshold'' # map fst (metrics ev))
                          else None),
               rows = csv_rows st,
               metric_lists = metrics_imgs st,
               summary = map (\<lambda>(k, v). (k, np_mean_list v, np_std_list v)) (metrics_imgs st)\<rparr>)"

text \<open>
  A file gives the sentinel when its \<^verbatim>\<open>AUROC_WT\<close> is -1; \<open>kept\<close> are the files that do
  not. Both are used to state how many rows the table has.
\<close>

definition sentinel :: "(string \<Rightarrow> error + real ndarray) \<Rightarrow> evaluator \<Rightarrow> string \<Rightarrow> bool" where
  "sentinel np_load ev file_name =
     (case sample_metrics np_load ev file_name of
        Inl e \<Rightarrow> False
      | Inr metrics_img \<Rightarrow> map_of metrics_img ''AUROC_WT'' = Some (Some (- 1)))"

definition kept :: "(string \<Rightarrow> error + real ndarray) \<Rightarrow> evaluator \<Rightarrow> string list \<Rightarrow> string list" where
  "kept np_load ev files = filter (\<lambda>f. \<not> sentinel np_load ev f) files"

section \<open>Example inputs\<close>

text \<open>
  A metric dictionary with \<^verbatim>\<open>AUROC_WT\<close> only (threshold 0 and a constant
  \<^verbatim>\<open>roc_auc_score\<close>, so that a sample of one pixel can be evaluated), and a folder
  with two readable sample files: \<^verbatim>\<open>a.npy\<close> has one tumour pixel, \<^verbatim>\<open>b.npy\<close> has none.
\<close>

definition demo_auroc :: metric_fn where
  "demo_auroc seg pred =
     (case region_specific_metrics seg pred (\<lambda>m i. AUROC (\<lambda>t s. Inr (1 / 2)) m i 0) ''WT'' of
        Inl e \<Rightarrow> Inl e
      | Inr v \<Rightarrow> Inr (Some v))"

definition demo_evaluator :: "string list \<Rightarrow> evaluator" where
  "demo_evaluator files =
     \<lparr>data_folder = ''val'', metrics = [(''AUROC_WT'', demo_auroc)], data_files = files\<rparr>"

definition demo_load :: "string \<Rightarrow> error + real ndarray" where
  "demo_load path =
     (if path = ''val/a.npy''
      then Inr \<lparr>kind = NumpyArray, shape = [1, 1, 1, 9],
                data = [255, 255, 255, 255, 1, 0, 0, 0, 0]\<rparr>
      else if path = ''val/b.npy''
      then Inr \<lparr>kind = NumpyArray, shape = [1, 1, 1, 9],
                data = [255, 255, 255, 255, 0, 0, 0, 0, 0]\<rparr>
      else Inl (LoadError path))"

section \<open>Properties of the region masks\<close>

lemma map2_same: "map2 f (map g xs) (map h xs) = map (\<lambda>x. f (g x) (h x)) xs"
  by (induction xs) simp_all

text \<open>
  Claim C4. For the three region types the mask has the shape of the label map and
  holds 1 exactly where the label is 1 (ET), 1 or 4 (TC), 1, 2 or 4 (WT), and 0
  elsewhere; any other region type fails the assertion. On the label map
  \<open>[[1,2],[4,0]]\<close> the masks are \<open>[[1,1],[1,0]]\<close> (WT), \<open>[[1,0],[1,0]]\<close> (TC) and
  \<open>[[1,0],[0,0]]\<close> (ET).
\<close>

theorem region_masks_spec:
  "region_masks ''ET'' t =
     Inr \<lparr>kind = kind t, shape = shape t,
          data = map (\<lambda>x. if x = 1 then 1 else 0) (data t)\<rparr>
   \<and> region_masks ''TC'' t =
     Inr \<lparr>kind = kind t, shape = shape t,
          data = map (\<lambda>x. if x = 1 \<or> x = 4 then 1 else 0) (data t)\<rparr>
   \<and> region_masks ''WT'' t =
     Inr \<lparr>kind = kind t, shape = shape t,
          data = map (\<lambda>x. if x = 1 \<or> x = 2 \<or> x = 4 then 1 else 0) (data t)\<rparr>
   \<and> (rt \<notin> {''ET'', ''TC'', ''WT''} \<longrightarrow>
        region_masks rt t = Inl (AssertionError ''region type should be one of ET, TC, WT''))
   \<and> region_masks ''WT'' \<lparr>kind = NumpyArray, shape = [2, 2], data = [1, 2, 4, 0]\<rparr> =
        Inr \<lparr>kind = NumpyArray, shape = [2, 2], data = [1, 1, 1, 0]\<rparr>
   \<and> region_masks ''TC'' \<lparr>kind = NumpyArray, shape = [2, 2], data = [1, 2, 4, 0]\<rparr> =
        Inr \<lparr>kind = NumpyArray, shape = [2, 2], data = [1, 0, 1, 0]\<rparr>
   \<and> region_masks ''ET'' \<lparr>kind = NumpyArray, shape = [2, 2], data = [1, 2, 4, 0]\<rparr> =
        Inr \<lparr>kind = NumpyArray, shape = [2, 2], data = [1, 0, 0, 0]\<rparr>"
  by (simp add: region_masks_def amap_def bool_mul_def bool_gt_def bool_add_def np_eq_def
      map2_same o_def)

theorem region_masks_spec_witness:
  "''XY'' \<notin> {''ET'', ''TC'', ''WT''}
   \<and> region_masks ''XY'' \<lparr>kind = NumpyArray, shape = [1], data = [1]\<rparr> =
       Inl (AssertionError ''region type should be one of ET, TC, WT'')
   \<and> region_masks ''WT'' \<lparr>kind = NumpyArray, shape = [1], data = [2]\<rparr> =
       Inr \<lparr>kind = NumpyArray, shape = [1], data = [1]\<rparr>"
  using region_masks_spec [of "\<lparr>kind = NumpyArray, shape = [1], data = [1]\<rparr>" "''XY''"]
    region_masks_spec [of "\<lparr>kind = NumpyArray, shape = [1], data = [2]\<rparr>" "''XY''"]
  by simp

section \<open>Properties of the Dice coefficient\<close>

lemma np_fadd_simps [simp]:
  "np_fadd None b = None"
  "np_fadd a None = None"
  "np_fadd (Some x) (Some y) = Some (x + y)"
  by (simp_all add: np_fadd_def split: option.splits)












section \<open>Properties of AUROC and of the binarisation\<close>

lemma AUROC_single_sample:
  assumes "shape images = shape targets" "kind images = kind targets"
    and "shape images = 1 # rest"
  shows "AUROC roc targets images threshold =
     (let target = (if kind images = TorchTensor
                    then map (\<lambda>x. real (to_uint8 x)) (take (prod_list rest) (data targets))
                    else take (prod_list rest) (data targets))
      in if sum_list target \<le> threshold then Inr (- 1)
         else roc target (take (prod_list rest) (data images)))"
proof -
  from assms have st: "shape targets = 1 # rest" by simp
  show ?thesis using assms(1,2)
    by (simp add: AUROC_def iter0_def assms(3) st Let_def split: sum.splits)
qed

text \<open>
  Claim C1. For a batch of one sample the function returns -1 when the target's sum is
  at most the threshold (lemma \<open>AUROC_single_sample\<close>). For a larger batch it does
  not: the sentinel is stored in the accumulator, later samples add to it, and the
  total is divided by the batch size. On a batch of two samples without any positive
  pixel the result is -1/2, whatever the predictions are.
\<close>

theorem AUROC_batch_of_two_degenerate:
  "AUROC roc \<lparr>kind = NumpyArray, shape = [2, 1, 1, 1], data = [0, 0]\<rparr>
             \<lparr>kind = NumpyArray, shape = [2, 1, 1, 1], data = [0.3, 0.7]\<rparr> default_threshold
     = Inr (- 1 / 2)
   \<and> AUROC roc \<lparr>kind = NumpyArray, shape = [2, 1, 1, 1], data = [0, 0]\<rparr>
             \<lparr>kind = NumpyArray, shape = [2, 1, 1, 1], data = [0.3, 0.7]\<rparr> default_threshold
     \<noteq> Inr (- 1)"
  by (simp add: AUROC_def iter0_def default_threshold_def eval_nat_numeral)

text \<open>
  Claim C10. The find-threshold mode marks a pixel when its score is greater than the
  threshold, the use-threshold mode when it is greater or equal. On a score map without
  a pixel equal to the threshold the two binarisations are the same array; on every
  score map with such a pixel they differ.
\<close>

theorem binarize_modes:
  "(thresh \<notin> set (data pred) \<longrightarrow>
       binarize_gt thresh pred = using_thresh_mask_fn thresh pred)
   \<and> (thresh \<in> set (data pred) \<longrightarrow>
       binarize_gt thresh pred \<noteq> using_thresh_mask_fn thresh pred)"
proof (intro conjI impI)
  assume "thresh \<notin> set (data pred)"
  then have "map (\<lambda>p. of_bool (p > thresh) * (1::real)) (data pred) =
             map (\<lambda>p. of_bool (p \<ge> thresh) * 1) (data pred)"
    by (intro map_cong refl) (auto simp: less_le)
  then show "binarize_gt thresh pred = using_thresh_mask_fn thresh pred"
    by (simp add: binarize_gt_def using_thresh_mask_fn_def amap_def)
next
  assume "thresh \<in> set (data pred)"
  then obtain i where i: "i < length (data pred)" "data pred ! i = thresh"
    by (auto simp: in_set_conv_nth)
  show "binarize_gt thresh pred \<noteq> using_thresh_mask_fn thresh pred"
  proof
    assume "binarize_gt thresh pred = using_thresh_mask_fn thresh pred"
    then have "data (binarize_gt thresh pred) ! i = data (using_thresh_mask_fn thresh pred) ! i"
      by simp
    with i show False
      by (simp add: binarize_gt_def using_thresh_mask_fn_def amap_def)
  qed
qed

theorem binarize_modes_witness:
  "3 / 10 \<notin> set (data \<lparr>kind = NumpyArray, shape = [2], data = [1 / 5, 1 / 2 :: real]\<rparr>)
   \<and> binarize_gt (3 / 10) \<lparr>kind = NumpyArray, shape = [2], data = [1 / 5, 1 / 2]\<rparr> =
       using_thresh_mask_fn (3 / 10) \<lparr>kind = NumpyArray, shape = [2], data = [1 / 5, 1 / 2]\<rparr>
   \<and> 1 / 2 \<in> set (data \<lparr>kind = NumpyArray, shape = [2], data = [1 / 5, 1 / 2 :: real]\<rparr>)
   \<and> binarize_gt (1 / 2) \<lparr>kind = NumpyArray, shape = [2], data = [1 / 5, 1 / 2]\<rparr> \<noteq>
       using_thresh_mask_fn (1 / 2) \<lparr>kind = NumpyArray, shape = [2], data = [1 / 5, 1 / 2]\<rparr>"
  using binarize_modes [where pred = "\<lparr>kind = NumpyArray, shape = [2], data = [1 / 5, 1 / 2]\<rparr>"
      and thresh = "3 / 10"]
    binarize_modes [where pred = "\<lparr>kind = NumpyArray, shape = [2], data = [1 / 5, 1 / 2]\<rparr>"
      and thresh = "1 / 2"]
  by simp

section \<open>Properties of broadcasting\<close>

lemma unravel_length [simp]: "length (unravel ds k) = length ds"
  by (induction ds arbitrary: k) simp_all

lemma ravel_unravel: "k < prod_list ds \<Longrightarrow> ravel ds (unravel ds k) = k"
proof (induction ds arbitrary: k)
  case Nil
  then show ?case by simp
next
  case (Cons d ds)
  from Cons.prems have pos: "0 < prod_list ds"
    by (cases "prod_list ds = 0") simp_all
  then have "k mod prod_list ds < prod_list ds" by simp
  from Cons.IH [OF this] show ?case by simp
qed

lemma unravel_bound:
  "k < prod_list ds \<Longrightarrow> list_all2 (<) (unravel ds k) ds"
proof (induction ds arbitrary: k)
  case Nil
  then show ?case by simp
next
  case (Cons d ds)
  from Cons.prems have pos: "0 < prod_list ds"
    by (cases "prod_list ds = 0") simp_all
  then have m: "k mod prod_list ds < prod_list ds" by simp
  from Cons.prems have "k div prod_list ds < d"
    by (simp add: less_mult_imp_div_less mult.commute)
  with Cons.IH [OF m] show ?case by simp
qed

lemma broadcast_index_same:
  "list_all2 (<) idx ds \<Longrightarrow> map2 (\<lambda>d i. if d = (1::nat) then 0 else i) ds idx = (idx :: nat list)"
  by (induction idx ds rule: list_all2_induct) auto

lemma broadcast_index_ravel:
  assumes "k < prod_list ds"
  shows "ravel ds (map2 (\<lambda>d i. if d = (1::nat) then 0 else i) ds (unravel ds k)) = k"
  unfolding broadcast_index_same [OF unravel_bound [OF assms]]
  by (rule ravel_unravel [OF assms])

lemma broadcast_to_same:
  assumes "well_formed a"
  shows "broadcast_to (shape a) a = data a"
proof -
  have "map (\<lambda>k. data a ! ravel (shape a)
                (map2 (\<lambda>d i. if d = (1::nat) then 0 else i) (shape a) (unravel (shape a) k)))
            [0..<prod_list (shape a)] = map (\<lambda>k. data a ! k) [0..<prod_list (shape a)]"
  proof (rule map_cong [OF refl])
    fix k assume "k \<in> set [0..<prod_list (shape a)]"
    then have "k < prod_list (shape a)" by simp
    then show "data a ! ravel (shape a)
                (map2 (\<lambda>d i. if d = (1::nat) then 0 else i) (shape a) (unravel (shape a) k))
               = data a ! k"
      by (simp only: broadcast_index_ravel)
  qed
  also have "\<dots> = data a"
    using assms map_nth [of "data a"] by (simp add: well_formed_def)
  finally show ?thesis
    by (simp add: broadcast_to_def pad_shape_def)
qed

lemma those_bdim_same: "those (map2 bdim s s) = Some s"
  by (induction s) (simp_all add: bdim_def)

lemma broadcast_shapes_same: "broadcast_shapes s s = Some s"
  by (simp add: broadcast_shapes_def pad_shape_def those_bdim_same)

lemma np_binop_same_shape:
  assumes "well_formed a" "well_formed b" "shape a = shape b"
  shows "np_binop f a b = Inr \<lparr>kind = kind a, shape = shape a, data = map2 f (data a) (data b)\<rparr>"
proof -
  have "broadcast_to (shape a) b = data b"
    using broadcast_to_same [OF assms(2)] assms(3) by simp
  then show ?thesis
    by (simp add: np_binop_def assms(3) [symmetric] broadcast_shapes_same
        broadcast_to_same [OF assms(1)])
qed

section \<open>Properties of the anomaly score map\<close>

lemma score_map_code [code]:
  "score_map img generated =
     ebind (np_binop (-) generated img) (\<lambda>diff.
     ebind (reduce_axis np_mean 3 False (amap abs diff)) (\<lambda>m.
     Inr (expand_last m)))"
  by (simp add: score_map_def)

lemma map_upt_cong:
  "(\<And>k. k < n \<Longrightarrow> f k = g k) \<Longrightarrow> map f [0..<n] = map g [0..<n]"
  by (rule map_cong [OF refl]) simp

lemma index_first_sample:
  assumes "shape d = n # rest" "0 < n"
  shows "index_axis 0 0 d =
     Inr \<lparr>kind = kind d, shape = rest, data = map (\<lambda>k. data d ! k) [0..<prod_list rest]\<rparr>"
  using assms(2) by (auto simp: index_axis_def assms(1) Let_def intro!: map_upt_cong)

lemma sample_img_nine:
  assumes "well_formed d" "shape d = [n, H, W, 9]" "0 < n"
  shows "sample_img d =
     Inr \<lparr>kind = kind d, shape = [1, H, W, 4],
          data = map (\<lambda>k. data d ! (k div 4 * 9 + k mod 4) * 1 / 255) [0..<H * W * 4]\<rparr>"
proof -
  have lt: "k div 4 * 9 + k mod 4 < H * W * 9" if "k < H * W * 4" for k
  proof -
    from that have "k div 4 < H * W" by simp
    then have "Suc (k div 4) * 9 \<le> H * W * 9" by (intro mult_le_mono1) simp
    moreover have "k mod 4 < 9" by (rule less_trans [of _ 4]) simp_all
    ultimately show ?thesis by simp
  qed
  have "map (\<lambda>k. map (\<lambda>k. data d ! k) [0..<H * W * 9] ! (k div 4 * 9 + k mod 4)) [0..<H * W * 4]
        = map (\<lambda>k. data d ! (k div 4 * 9 + k mod 4)) [0..<H * W * 4]"
    by (rule map_upt_cong) (simp add: lt)
  then show ?thesis
    by (simp add: sample_img_def index_first_sample [OF assms(2,3)] ebind_def slice_axis_def
        amap_def newaxis0_def reshape_def o_def mult.assoc)
qed

lemma sample_generated_nine:
  assumes "shape d = [n, H, W, 9]" "0 < n"
  shows "sample_generated d =
     Inr \<lparr>kind = kind d, shape = [1, H, W, 4],
          data = map (\<lambda>k. data d ! (k div 4 * 9 + 5 + k mod 4) * 1 / 255) [0..<H * W * 4]\<rparr>"
proof -
  have lt: "k div 4 * 9 + 5 + k mod 4 < H * W * 9" if "k < H * W * 4" for k
  proof -
    from that have "k div 4 < H * W" by simp
    then have "Suc (k div 4) * 9 \<le> H * W * 9" by (intro mult_le_mono1) simp
    moreover have "k mod 4 < 4" by simp
    ultimately show ?thesis by simp
  qed
  have "map (\<lambda>k. map (\<lambda>k. data d ! k) [0..<H * W * 9] ! (k div 4 * 9 + 5 + k mod 4)) [0..<H * W * 4]
        = map (\<lambda>k. data d ! (k div 4 * 9 + 5 + k mod 4)) [0..<H * W * 4]"
    by (rule map_upt_cong) (simp add: lt)
  then show ?thesis
    by (simp add: sample_generated_def index_first_sample [OF assms(1,2)] ebind_def slice_axis_def
        amap_def newaxis0_def reshape_def o_def mult.assoc)
qed

lemma sample_seg_nine:
  assumes "shape d = [n, H, W, 9]" "0 < n"
  shows "\<exists>seg. sample_seg d = Inr seg \<and> shape seg = [1, H, W, 1]"
  unfolding sample_seg_def index_first_sample [OF assms(1,2)]
  by (simp add: ebind_def index_axis_def newaxis0_def expand_last_def reshape_def Let_def)

lemma score_map_four:
  assumes "shape img = [1, H, W, 4]" "shape gen = [1, H, W, 4]"
    and "length (data img) = H * W * 4" "length (data gen) = H * W * 4"
  shows "score_map img gen =
     Inr \<lparr>kind = kind gen, shape = [1, H, W, 1],
          data = map (\<lambda>p. np_mean (map (\<lambda>c. \<bar>data gen ! (p * 4 + c) - data img ! (p * 4 + c)\<bar>) [0..<4]))
                     [0..<H * W]\<rparr>"
proof -
  have wi: "well_formed img" and wg: "well_formed gen"
    using assms by (simp_all add: well_formed_def)
  have sh: "shape gen = shape img" using assms by simp
  have inner: "map (\<lambda>c. map (\<lambda>x. sqrt (x ^ 2)) (map2 (-) (data gen) (data img)) ! (p * 4 + c)) [0..<4]
      = map (\<lambda>c. \<bar>data gen ! (p * 4 + c) - data img ! (p * 4 + c)\<bar>) [0..<4]"
    if "p < H * W" for p
  proof (rule map_upt_cong)
    fix c :: nat assume "c < 4"
    with that have "p * 4 + c < H * W * 4"
      using mult_le_mono1 [of "Suc p" "H * W" 4] by simp
    then show "map (\<lambda>x. sqrt (x ^ 2)) (map2 (-) (data gen) (data img)) ! (p * 4 + c)
        = \<bar>data gen ! (p * 4 + c) - data img ! (p * 4 + c)\<bar>"
      using assms(3,4) by simp
  qed
  have "map (\<lambda>p. np_mean (map (\<lambda>c. map (\<lambda>x. sqrt (x ^ 2)) (map2 (-) (data gen) (data img)) ! (p * 4 + c)) [0..<4]))
            [0..<H * W]
      = map (\<lambda>p. np_mean (map (\<lambda>c. \<bar>data gen ! (p * 4 + c) - data img ! (p * 4 + c)\<bar>) [0..<4]))
            [0..<H * W]"
    by (rule map_upt_cong) (simp only: inner)
  then show ?thesis
    unfolding score_map_def np_binop_same_shape [OF wg wi sh]
    by (simp add: ebind_def reduce_axis_def amap_def expand_last_def reshape_def assms(2) Let_def)
qed

text \<open>
  Claim C7, as amended. For a well-formed sample array with exactly nine channels the
  score map has one entry per pixel: the mean over the four modalities of the absolute
  difference between the generated channel (5 to 8) and the input channel (0 to 3),
  both divided by 255. The slice \<^verbatim>\<open>5:\<close> takes every channel from the fifth on, so the
  statement is about nine channels, not about nine or more.
\<close>

theorem anomaly_score_nine_channels:
  assumes "well_formed d" "shape d = [n, H, W, 9]" "0 < n"
  shows "anomaly_score d =
     Inr \<lparr>kind = kind d, shape = [1, H, W, 1],
          data = map (\<lambda>p. np_mean (map (\<lambda>c. \<bar>data d ! (p * 9 + 5 + c) / 255
                                                 - data d ! (p * 9 + c) / 255\<bar>) [0..<4]))
                     [0..<H * W]\<rparr>"
proof -
  let ?img = "\<lparr>kind = kind d, shape = [1, H, W, 4],
          data = map (\<lambda>k. data d ! (k div 4 * 9 + k mod 4) * 1 / 255) [0..<H * W * 4]\<rparr>"
  let ?gen = "\<lparr>kind = kind d, shape = [1, H, W, 4],
          data = map (\<lambda>k. data d ! (k div 4 * 9 + 5 + k mod 4) * 1 / 255) [0..<H * W * 4]\<rparr>"
  obtain seg where seg: "sample_seg d = Inr seg"
    using sample_seg_nine [OF assms(2,3)] by blast
  have score: "score_map ?img ?gen =
     Inr \<lparr>kind = kind d, shape = [1, H, W, 1],
          data = map (\<lambda>p. np_mean (map (\<lambda>c. \<bar>data ?gen ! (p * 4 + c) - data ?img ! (p * 4 + c)\<bar>) [0..<4]))
                     [0..<H * W]\<rparr>"
    using score_map_four [of ?img H W ?gen] by simp
  have channels: "map (\<lambda>c. \<bar>data ?gen ! (p * 4 + c) - data ?img ! (p * 4 + c)\<bar>) [0..<4]
      = map (\<lambda>c. \<bar>data d ! (p * 9 + 5 + c) / 255 - data d ! (p * 9 + c) / 255\<bar>) [0..<4]"
    if "p < H * W" for p
  proof (rule map_upt_cong)
    fix c :: nat assume c: "c < 4"
    with that have "p * 4 + c < H * W * 4"
      using mult_le_mono1 [of "Suc p" "H * W" 4] by simp
    moreover from c have "(p * 4 + c) div 4 = p" "(p * 4 + c) mod 4 = c" by simp_all
    ultimately show "\<bar>data ?gen ! (p * 4 + c) - data ?img ! (p * 4 + c)\<bar>
        = \<bar>data d ! (p * 9 + 5 + c) / 255 - data d ! (p * 9 + c) / 255\<bar>"
      by (simp add: add.assoc)
  qed
  have "map (\<lambda>p. np_mean (map (\<lambda>c. \<bar>data ?gen ! (p * 4 + c) - data ?img ! (p * 4 + c)\<bar>) [0..<4]))
            [0..<H * W]
      = map (\<lambda>p. np_mean (map (\<lambda>c. \<bar>data d ! (p * 9 + 5 + c) / 255
                                           - data d ! (p * 9 + c) / 255\<bar>) [0..<4]))
            [0..<H * W]"
    by (rule map_upt_cong) (simp only: channels)
  with score show ?thesis
    by (simp only: anomaly_score_def sample_img_nine [OF assms] seg
        sample_generated_nine [OF assms(2,3)] ebind_def sum.case)
qed

theorem anomaly_score_nine_channels_witness:
  "well_formed \<lparr>kind = NumpyArray, shape = [1, 1, 2, 9],
       data = [0, 255, 0, 51, 1, 255, 0, 0, 0, 102, 0, 0, 0, 0, 0, 0, 0, 255 :: real]\<rparr>
   \<and> anomaly_score \<lparr>kind = NumpyArray, shape = [1, 1, 2, 9],
       data = [0, 255, 0, 51, 1, 255, 0, 0, 0, 102, 0, 0, 0, 0, 0, 0, 0, 255]\<rparr> =
     Inr \<lparr>kind = NumpyArray, shape = [1, 1, 2, 1], data = [11 / 20, 7 / 20]\<rparr>"
  using anomaly_score_nine_channels [of "\<lparr>kind = NumpyArray, shape = [1, 1, 2, 9],
       data = [0, 255, 0, 51, 1, 255, 0, 0, 0, 102, 0, 0, 0, 0, 0, 0, 0, 255]\<rparr>" 1 1 2]
  by (simp add: well_formed_def np_mean_def eval_nat_numeral)

text \<open>
  With ten channels the generated part has five channels and the input part four:
  the subtraction cannot be broadcast and no score map is produced.
\<close>

theorem anomaly_score_ten_channels_fails:
  "well_formed \<lparr>kind = NumpyArray, shape = [1, 1, 1, 10],
       data = [0, 0, 0, 0, 0, 0, 0, 0, 0, 0 :: real]\<rparr>
   \<and> (9::nat) \<le> 10
   \<and> anomaly_score \<lparr>kind = NumpyArray, shape = [1, 1, 1, 10],
       data = [0, 0, 0, 0, 0, 0, 0, 0, 0, 0]\<rparr> =
     Inl (ValueError ''operands could not be broadcast together'')"
  by code_simp

text \<open>The same happens with any number of channels from ten on.\<close>

lemma anomaly_score_ten_or_more_channels:
  assumes "shape d = [n, H, W, C]" "0 < n" "10 \<le> C"
  shows "anomaly_score d = Inl (ValueError ''operands could not be broadcast together'')"
proof -
  have b: "broadcast_shapes [1, H, W, C - 5] [1, H, W, 4] = None"
  proof -
    from assms(3) have "C - 5 \<noteq> 1" "C - 5 \<noteq> 4" by linarith+
    then show ?thesis
      by (simp add: broadcast_shapes_def pad_shape_def bdim_def)
  qed
  show ?thesis
    unfolding anomaly_score_def sample_img_def sample_seg_def sample_generated_def
      index_first_sample [OF assms(1,2)]
    using assms(3)
    by (simp add: ebind_def slice_axis_def index_axis_def score_map_def np_binop_def b
        amap_def newaxis0_def expand_last_def reshape_def Let_def min_def
        del: One_nat_def)
qed

section \<open>Properties of the non-zero masking\<close>

text \<open>
  For NumPy images with four channels (the evaluator's case) the mask marks the pixels
  whose four channels all exceed the minimum of the images, and the targets keep
  their value there and take the targets' minimum elsewhere.
\<close>

lemma count_four:
  "(sum_list (map (\<lambda>j. of_bool (P j)) [0..<4]) = (4::nat)) = list_all P [0..<4]"
proof -
  have "[0..<4] = [0, 1, 2, 3 :: nat]" by code_simp
  then show ?thesis
    by (cases "P 0"; cases "P 1"; cases "P 2"; cases "P 3") simp_all
qed

lemma nonzero_masking_four_channels:
  assumes k: "kind images = NumpyArray" "kind targets = NumpyArray"
    and si: "shape images = [n, H, W, 4]" and st: "shape targets = [n, H, W, 1]"
    and wi: "well_formed images" and wt: "well_formed targets"
    and pos: "0 < n * H * W"
  shows "nonzero_masking images targets =
     Inr (\<lparr>kind = NumpyArray, shape = [n, H, W, 1],
           data = map (\<lambda>p. if foreground images p then data targets ! p
                           else min_list (data targets)) [0..<n * H * W]\<rparr>,
          \<lparr>kind = NumpyArray, shape = [n, H, W, 1],
           data = map (\<lambda>p. if foreground images p then 1 else 0) [0..<n * H * W]\<rparr>)"
proof -
  let ?N = "n * H * W"
  let ?m = "min_list (data images)"
  let ?tmin = "min_list (data targets)"
  let ?M = "map (\<lambda>p. if foreground images p then 1 else (0::real)) [0..<?N]"
  let ?mask = "\<lparr>kind = NumpyArray, shape = [n, H, W, 1], data = ?M\<rparr>"
  from wi si have li: "length (data images) = ?N * 4" by (simp add: well_formed_def)
  from wt st have lt: "length (data targets) = ?N" by (simp add: well_formed_def)
  from li pos have mi: "np_min images = Inr ?m" by (auto simp: np_min_def)
  from lt pos have mt: "np_min targets = Inr ?tmin" by (auto simp: np_min_def)
  have cnt: "sum_list (map (\<lambda>j. map (\<lambda>x. of_bool (?m < x)) (data images) ! (p * 4 + j)) [0..<4])
      = sum_list (map (\<lambda>j. of_bool (?m < data images ! (p * 4 + j))) [0..<4])"
    if "p < n * (H * W)" for p
  proof (rule arg_cong [where f = sum_list], rule map_upt_cong)
    fix j :: nat assume "j < 4"
    with that have "p * 4 + j < ?N * 4"
      using mult_le_mono1 [of "Suc p" ?N 4] by (simp add: mult.assoc)
    then show "map (\<lambda>x. of_bool (?m < x)) (data images) ! (p * 4 + j)
        = of_bool (?m < data images ! (p * 4 + j))"
      by (simp add: li)
  qed
  have count: "reduce_axis sum_list 3 True (amap (\<lambda>x. of_bool (?m < x)) images)
      = Inr \<lparr>kind = NumpyArray, shape = [n, H, W, 1],
             data = map (\<lambda>p. sum_list (map (\<lambda>j. of_bool (?m < data images ! (p * 4 + j))) [0..<4]))
                        [0..<?N]\<rparr>"
    by (auto simp: reduce_axis_def amap_def si k Let_def mult.assoc cnt
        simp del: upt_rec_numeral intro!: map_upt_cong)
  have mask: "amap (\<lambda>c. of_bool (c = (4::nat)))
        \<lparr>kind = NumpyArray, shape = [n, H, W, 1],
         data = map (\<lambda>p. sum_list (map (\<lambda>j. of_bool (?m < data images ! (p * 4 + j))) [0..<4]))
                    [0..<?N]\<rparr> = ?mask"
    by (simp add: amap_def o_def count_four foreground_def del: upt_rec_numeral)
  have wm: "well_formed ?mask" by (simp add: well_formed_def)
  have T: "data targets = map (\<lambda>p. data targets ! p) [0..<?N]"
    using map_nth [of "data targets"] by (simp add: lt)
  have kept: "np_binop (*) targets ?mask
      = Inr \<lparr>kind = NumpyArray, shape = [n, H, W, 1],
             data = map (\<lambda>p. data targets ! p * (if foreground images p then 1 else 0)) [0..<?N]\<rparr>"
  proof -
    have sh: "shape targets = shape ?mask" by (simp add: st)
    have "map2 (*) (data targets) ?M
        = map (\<lambda>p. data targets ! p * (if foreground images p then 1 else 0)) [0..<?N]"
      by (subst T) (simp add: map2_same del: upt_rec_numeral)
    then show ?thesis
      unfolding np_binop_same_shape [OF wt wm sh] by (simp add: k st)
  qed
  let ?kept = "\<lparr>kind = NumpyArray, shape = [n, H, W, 1],
             data = map (\<lambda>p. data targets ! p * (if foreground images p then 1 else 0)) [0..<?N]\<rparr>"
  let ?fill = "amap ((*) ?tmin) (amap ((-) 1) ?mask)"
  have wk: "well_formed ?kept" by (simp add: well_formed_def)
  have wf: "well_formed ?fill" by (simp add: well_formed_def amap_def)
  have sum: "np_binop (+) ?kept ?fill
      = Inr \<lparr>kind = NumpyArray, shape = [n, H, W, 1],
             data = map (\<lambda>p. if foreground images p then data targets ! p else ?tmin) [0..<?N]\<rparr>"
  proof -
    have sh: "shape ?kept = shape ?fill" by (simp add: amap_def)
    show ?thesis
      unfolding np_binop_same_shape [OF wk wf sh]
      by (auto simp: amap_def map2_same o_def simp del: upt_rec_numeral intro!: map_upt_cong)
  qed
  have hw: "take 2 (drop 1 (shape images)) = take 2 (drop 1 (shape targets))"
    by (simp add: si st)
  show ?thesis
    unfolding nonzero_masking_def
    by (simp add: k hw mi ebind_def count mask kept mt sum Let_def
        del: upt_rec_numeral One_nat_def)
qed

text \<open>
  Claim C5. The mask compares the number of channels above the minimum with the
  constant 4, not with the number of channels, so the statement of the claim holds for
  four channels only (lemma \<open>nonzero_masking_four_channels\<close>). The docstring admits
  images of shape \<open>(N,H,W,1)\<close>; for such an image no pixel is ever foreground. Here
  the second pixel exceeds the minimum in its only channel, yet the mask is 0
  everywhere and its target value 7 is replaced by the targets' minimum 5.
\<close>

theorem nonzero_masking_single_channel:
  "nonzero_masking \<lparr>kind = NumpyArray, shape = [1, 1, 2, 1], data = [0, 1]\<rparr>
                   \<lparr>kind = NumpyArray, shape = [1, 1, 2, 1], data = [5, 7]\<rparr> =
     Inr (\<lparr>kind = NumpyArray, shape = [1, 1, 2, 1], data = [5, 5]\<rparr>,
          \<lparr>kind = NumpyArray, shape = [1, 1, 2, 1], data = [0, 0]\<rparr>)"
  by code_simp

section \<open>Properties of the batch evaluator\<close>

lemma compute_metrics_keys:
  "compute_metrics ms seg pred = Inr r \<Longrightarrow> map fst r = map fst ms"
  by (induction ms seg pred arbitrary: r rule: compute_metrics.induct)
     (auto split: sum.splits)

lemma sample_metrics_keys:
  "sample_metrics np_load ev f = Inr r \<Longrightarrow> map fst r = map fst (metrics ev)"
  by (auto simp: sample_metrics_def ebind_def compute_metrics_keys split: sum.splits)

lemma append_metrics_ok:
  "set (map fst ls) \<subseteq> set (map fst r) \<Longrightarrow>
   \<exists>ls'. append_metrics ls r = Inr ls' \<and> map fst ls' = map fst ls
     \<and> map (\<lambda>a. length (snd a)) ls' = map (\<lambda>a. Suc (length (snd a))) ls"
proof (induction ls)
  case Nil
  then show ?case by simp
next
  case (Cons l ls)
  obtain k vs where l: "l = (k, vs)" by (cases l)
  from Cons.prems l have "k \<in> fst ` set r" by simp
  then obtain v where v: "map_of r k = Some v"
    by (metis domD dom_map_of_conv_image_fst)
  from Cons.prems have "set (map fst ls) \<subseteq> set (map fst r)" by simp
  from Cons.IH [OF this] obtain ls' where "append_metrics ls r = Inr ls'"
    "map fst ls' = map fst ls" "map (\<lambda>a. length (snd a)) ls' = map (\<lambda>a. Suc (length (snd a))) ls"
    by blast
  then show ?case by (simp add: l v)
qed

lemma evaluate_loop_ok:
  assumes "\<forall>f \<in> set files. \<exists>r. sample_metrics np_load ev f = Inr r"
    and "''AUROC_WT'' \<in> set (map fst (metrics ev))"
    and "map fst (metrics_imgs st) = map fst (metrics ev)"
  shows "\<exists>st'. evaluate_loop np_load ev store_data files st = Inr st'
      \<and> map fst (csv_rows st') = map fst (csv_rows st)
            @ (if store_data then kept np_load ev files else [])
      \<and> map fst (metrics_imgs st') = map fst (metrics ev)
      \<and> map (\<lambda>a. length (snd a)) (metrics_imgs st')
          = map (\<lambda>a. length (snd a) + length (kept np_load ev files)) (metrics_imgs st)"
  using assms
proof (induction files arbitrary: st)
  case Nil
  then show ?case by (simp add: kept_def)
next
  case (Cons f files)
  from Cons.prems(1) obtain r where r: "sample_metrics np_load ev f = Inr r" by auto
  from sample_metrics_keys [OF r] have keys: "map fst r = map fst (metrics ev)" .
  with Cons.prems(2) have "''AUROC_WT'' \<in> fst ` set r" by (metis set_map)
  then obtain a where a: "map_of r ''AUROC_WT'' = Some a"
    by (metis domD dom_map_of_conv_image_fst)
  from Cons.prems(1) have rest: "\<forall>f \<in> set files. \<exists>r. sample_metrics np_load ev f = Inr r"
    by simp
  show ?case
  proof (cases "a = Some (- 1)")
    case True
    then have s: "sentinel np_load ev f" by (simp add: sentinel_def r a)
    from Cons.IH [OF rest Cons.prems(2) Cons.prems(3)] True s show ?thesis
      by (cases store_data) (simp_all add: r a kept_def)
  next
    case False
    then have s: "\<not> sentinel np_load ev f" by (simp add: sentinel_def r a)
    have "set (map fst (metrics_imgs st)) \<subseteq> set (map fst r)"
      by (simp only: keys Cons.prems(3) subset_refl)
    from append_metrics_ok [OF this] obtain ls' where
      ls': "append_metrics (metrics_imgs st) r = Inr ls'"
        "map fst ls' = map fst (metrics_imgs st)"
        "map (\<lambda>a. length (snd a)) ls' = map (\<lambda>a. Suc (length (snd a))) (metrics_imgs st)"
      by blast
    let ?st = "\<lparr>csv_rows = csv_rows st @ (if store_data then [(f, r)] else []),
                 metrics_imgs = ls'\<rparr>"
    have inv: "map fst (metrics_imgs ?st) = map fst (metrics ev)"
      by (simp add: ls'(2) Cons.prems(3))
    from Cons.IH [OF rest Cons.prems(2) inv] obtain st' where
      st': "evaluate_loop np_load ev store_data files ?st = Inr st'"
        "map fst (csv_rows st') = map fst (csv_rows ?st)
            @ (if store_data then kept np_load ev files else [])"
        "map fst (metrics_imgs st') = map fst (metrics ev)"
        "map (\<lambda>a. length (snd a)) (metrics_imgs st')
          = map (\<lambda>a. length (snd a) + length (kept np_load ev files)) (metrics_imgs ?st)"
      by blast
    have "map (\<lambda>a. length (snd a) + length (kept np_load ev files)) ls'
        = map (\<lambda>n. n + length (kept np_load ev files)) (map (\<lambda>a. length (snd a)) ls')"
      by (simp add: o_def)
    also have "\<dots> = map (\<lambda>a. length (snd a) + length (kept np_load ev (f # files))) (metrics_imgs st)"
      using s by (simp add: ls'(3) kept_def o_def)
    finally have lens: "map (\<lambda>a. length (snd a) + length (kept np_load ev files)) ls'
        = map (\<lambda>a. length (snd a) + length (kept np_load ev (f # files))) (metrics_imgs st)" .
    from st' s False lens show ?thesis
      by (cases store_data) (simp_all add: r a ls'(1) kept_def)
  qed
qed

lemma demo_a: "sample_metrics demo_load (demo_evaluator fs) ''a.npy'' = Inr [(''AUROC_WT'', Some (1 / 2))]"
  by code_simp

lemma demo_b: "sample_metrics demo_load (demo_evaluator fs) ''b.npy'' = Inr [(''AUROC_WT'', Some (- 1))]"
  by code_simp

lemma demo_c: "sample_metrics demo_load (demo_evaluator fs) ''c.npy'' = Inl (LoadError ''val/c.npy'')"
  by code_simp

lemma evaluate_loop_append:
  "evaluate_loop np_load ev store_data (pre @ post) st =
     (case evaluate_loop np_load ev store_data pre st of
        Inl e \<Rightarrow> Inl e
      | Inr st' \<Rightarrow> evaluate_loop np_load ev store_data post st')"
  by (induction pre arbitrary: st) (auto split: sum.splits option.splits)

lemma length_filter_not:
  "length (filter (\<lambda>x. \<not> P x) xs) = length xs - length (filter P xs)"
  using sum_length_filter_compl [of P xs] by simp

text \<open>
  Claim C6. When every sample file loads and every metric can be computed, the
  evaluation with per-sample storage returns, and the table has one row for each
  file whose \<^verbatim>\<open>AUROC_WT\<close> is not the sentinel -1, in the order of the files: \<open>N - k\<close>
  rows for \<open>N\<close> files of which \<open>k\<close> give the sentinel (so \<open>N\<close> rows when none does).
  Every per-metric list, from which mean and standard deviation are taken, has the
  same \<open>N - k\<close> entries.
\<close>

theorem evaluate_images_row_count:
  assumes "\<forall>f \<in> set (data_files ev). \<exists>r. sample_metrics np_load ev f = Inr r"
    and "''AUROC_WT'' \<in> set (map fst (metrics ev))"
  shows "\<exists>res. evaluate_images np_load ev True = Inr res
     \<and> map fst (rows res) = filter (\<lambda>f. \<not> sentinel np_load ev f) (data_files ev)
     \<and> length (rows res) =
         length (data_files ev) - length (filter (sentinel np_load ev) (data_files ev))
     \<and> map fst (metric_lists res) = map fst (metrics ev)
     \<and> (\<forall>l \<in> set (metric_lists res). length (snd l) =
         length (data_files ev) - length (filter (sentinel np_load ev) (data_files ev)))"
proof -
  let ?st = "\<lparr>csv_rows = [], metrics_imgs = map (\<lambda>m. (fst m, [])) (metrics ev)\<rparr>"
  have inv: "map fst (metrics_imgs ?st) = map fst (metrics ev)" by (simp add: o_def)
  from evaluate_loop_ok [OF assms(1,2) inv, of True] obtain st' where
    st': "evaluate_loop np_load ev True (data_files ev) ?st = Inr st'"
      "map fst (csv_rows st') = kept np_load ev (data_files ev)"
      "map fst (metrics_imgs st') = map fst (metrics ev)"
      "map (\<lambda>a. length (snd a)) (metrics_imgs st')
        = map (\<lambda>a. length (snd a) + length (kept np_load ev (data_files ev))) (metrics_imgs ?st)"
    by auto
  have k: "length (kept np_load ev (data_files ev)) =
      length (data_files ev) - length (filter (sentinel np_load ev) (data_files ev))"
    by (simp add: kept_def length_filter_not)
  have rows_len: "length (csv_rows st') = length (kept np_load ev (data_files ev))"
    using arg_cong [OF st'(2), of length] by simp
  have lens: "\<forall>l \<in> set (metrics_imgs st'). length (snd l) = length (kept np_load ev (data_files ev))"
  proof
    fix l assume "l \<in> set (metrics_imgs st')"
    then have "length (snd l) \<in> set (map (\<lambda>a. length (snd a)) (metrics_imgs st'))" by auto
    then show "length (snd l) = length (kept np_load ev (data_files ev))"
      unfolding st'(4) by auto
  qed
  show ?thesis
    using st'(2,3) rows_len lens
    by (simp add: evaluate_images_def st'(1) k [symmetric] kept_def)
qed

theorem evaluate_images_row_count_witness:
  "sample_metrics demo_load (demo_evaluator [''a.npy'', ''b.npy'']) ''a.npy'' =
      Inr [(''AUROC_WT'', Some (1 / 2))]
   \<and> sample_metrics demo_load (demo_evaluator [''a.npy'', ''b.npy'']) ''b.npy'' =
      Inr [(''AUROC_WT'', Some (- 1))]
   \<and> ''AUROC_WT'' \<in> set (map fst (metrics (demo_evaluator [''a.npy'', ''b.npy''])))
   \<and> (\<exists>res. evaluate_images demo_load (demo_evaluator [''a.npy'', ''b.npy'']) True = Inr res
        \<and> map fst (rows res) = [''a.npy'']
        \<and> length (rows res) = 1
        \<and> map (\<lambda>l. length (snd l)) (metric_lists res) = [1])"
proof -
  have a: "sample_metrics demo_load (demo_evaluator [''a.npy'', ''b.npy'']) ''a.npy'' =
      Inr [(''AUROC_WT'', Some (1 / 2))]" by (rule demo_a)
  have b: "sample_metrics demo_load (demo_evaluator [''a.npy'', ''b.npy'']) ''b.npy'' =
      Inr [(''AUROC_WT'', Some (- 1))]" by (rule demo_b)
  have files: "data_files (demo_evaluator [''a.npy'', ''b.npy'']) = [''a.npy'', ''b.npy'']"
    and ms: "map fst (metrics (demo_evaluator [''a.npy'', ''b.npy''])) = [''AUROC_WT'']"
    by (simp_all add: demo_evaluator_def)
  have all: "\<forall>f \<in> set (data_files (demo_evaluator [''a.npy'', ''b.npy''])).
      \<exists>r. sample_metrics demo_load (demo_evaluator [''a.npy'', ''b.npy'']) f = Inr r"
    by (simp add: files a b)
  have key: "''AUROC_WT'' \<in> set (map fst (metrics (demo_evaluator [''a.npy'', ''b.npy''])))"
    by (simp add: ms)
  have sa: "\<not> sentinel demo_load (demo_evaluator [''a.npy'', ''b.npy'']) ''a.npy''"
    and sb: "sentinel demo_load (demo_evaluator [''a.npy'', ''b.npy'']) ''b.npy''"
    by (simp_all add: sentinel_def a b)
  from evaluate_images_row_count [OF all key] obtain res where
    res: "evaluate_images demo_load (demo_evaluator [''a.npy'', ''b.npy'']) True = Inr res"
      "map fst (rows res) = [''a.npy'']" "length (rows res) = 1"
      "map fst (metric_lists res) = [''AUROC_WT'']"
      "\<forall>l \<in> set (metric_lists res). length (snd l) = 1"
    by (auto simp: files ms sa sb)
  from res(4) obtain l where l: "metric_lists res = [l]" by auto
  with res(5) have "map (\<lambda>l. length (snd l)) (metric_lists res) = [1]" by simp
  with res a b key show ?thesis
    by (intro conjI exI [of _ res]) simp_all
qed

text \<open>
  Claim C9, as amended. A sample file that cannot be loaded ends the whole
  evaluation: the loader's error is the result, whatever samples were processed
  before and whatever files follow. No aggregate is returned.
\<close>

theorem evaluate_images_load_failure:
  assumes "data_files ev = pre @ f # post"
    and "\<forall>g \<in> set pre. \<exists>r. sample_metrics np_load ev g = Inr r"
    and "''AUROC_WT'' \<in> set (map fst (metrics ev))"
    and "np_load (path_join (data_folder ev) f) = Inl e"
  shows "evaluate_images np_load ev store_data = Inl e"
proof -
  let ?st = "\<lparr>csv_rows = [], metrics_imgs = map (\<lambda>m. (fst m, [])) (metrics ev)\<rparr>"
  have inv: "map fst (metrics_imgs ?st) = map fst (metrics ev)" by (simp add: o_def)
  from evaluate_loop_ok [OF assms(2,3) inv, of store_data] obtain st' where
    st': "evaluate_loop np_load ev store_data pre ?st = Inr st'" by blast
  have "sample_metrics np_load ev f = Inl e"
    by (simp add: sample_metrics_def assms(4) ebind_def)
  then have "evaluate_loop np_load ev store_data (f # post) st' = Inl e" by simp
  then show ?thesis
    by (simp add: evaluate_images_def assms(1) evaluate_loop_append st')
qed

theorem evaluate_images_load_failure_witness:
  "data_files (demo_evaluator [''a.npy'', ''c.npy'', ''b.npy'']) = [''a.npy''] @ ''c.npy'' # [''b.npy'']
   \<and> sample_metrics demo_load (demo_evaluator [''a.npy'', ''c.npy'', ''b.npy'']) ''a.npy'' =
      Inr [(''AUROC_WT'', Some (1 / 2))]
   \<and> ''AUROC_WT'' \<in> set (map fst (metrics (demo_evaluator [''a.npy'', ''c.npy'', ''b.npy''])))
   \<and> demo_load (path_join (data_folder (demo_evaluator [''a.npy'', ''c.npy'', ''b.npy''])) ''c.npy'')
      = Inl (LoadError ''val/c.npy'')
   \<and> evaluate_images demo_load (demo_evaluator [''a.npy'', ''c.npy'', ''b.npy'']) True
      = Inl (LoadError ''val/c.npy'')"
proof -
  have a: "sample_metrics demo_load (demo_evaluator [''a.npy'', ''c.npy'', ''b.npy'']) ''a.npy'' =
      Inr [(''AUROC_WT'', Some (1 / 2))]" by (rule demo_a)
  have files: "data_files (demo_evaluator [''a.npy'', ''c.npy'', ''b.npy'']) =
      [''a.npy''] @ ''c.npy'' # [''b.npy'']"
    by (simp add: demo_evaluator_def)
  have pre: "\<forall>g \<in> set [''a.npy'']. \<exists>r.
      sample_metrics demo_load (demo_evaluator [''a.npy'', ''c.npy'', ''b.npy'']) g = Inr r"
    by (simp add: a)
  have key: "''AUROC_WT'' \<in> set (map fst (metrics (demo_evaluator [''a.npy'', ''c.npy'', ''b.npy''])))"
    by (simp add: demo_evaluator_def)
  have c: "demo_load (path_join (data_folder (demo_evaluator [''a.npy'', ''c.npy'', ''b.npy''])) ''c.npy'')
      = Inl (LoadError ''val/c.npy'')"
    by (simp add: demo_evaluator_def demo_load_def path_join_def)
  from evaluate_images_load_failure [OF files pre key c, of True] a files key c
  show ?thesis by blast
qed

text \<open>
  The evaluation of a folder with a readable and an unreadable file is not the
  evaluation of the readable file alone: it is the load error.
\<close>

theorem evaluate_images_does_not_skip_failed_load:
  "sample_metrics demo_load (demo_evaluator [''a.npy'', ''c.npy'']) ''a.npy'' =
      Inr [(''AUROC_WT'', Some (1 / 2))]
   \<and> demo_load ''val/c.npy'' = Inl (LoadError ''val/c.npy'')
   \<and> evaluate_images demo_load (demo_evaluator [''a.npy'', ''c.npy'']) True
      = Inl (LoadError ''val/c.npy'')
   \<and> evaluate_images demo_load (demo_evaluator [''a.npy'', ''c.npy'']) True
      \<noteq> evaluate_images demo_load (demo_evaluator [''a.npy'']) True"
proof -
  have a: "sample_metrics demo_load (demo_evaluator fs) ''a.npy'' =
      Inr [(''AUROC_WT'', Some (1 / 2))]" for fs by (rule demo_a)
  have c: "sample_metrics demo_load (demo_evaluator fs) ''c.npy'' = Inl (LoadError ''val/c.npy'')"
    for fs by (rule demo_c)
  have l: "demo_load ''val/c.npy'' = Inl (LoadError ''val/c.npy'')"
    by (simp add: demo_load_def)
  have sel: "data_files (demo_evaluator fs) = fs"
    "metrics (demo_evaluator fs) = [(''AUROC_WT'', demo_auroc)]" for fs
    by (simp_all add: demo_evaluator_def)
  have two: "evaluate_images demo_load (demo_evaluator [''a.npy'', ''c.npy'']) True
      = Inl (LoadError ''val/c.npy'')"
    by (simp add: evaluate_images_def sel a c)
  have one: "\<exists>res. evaluate_images demo_load (demo_evaluator [''a.npy'']) True = Inr res"
    by (simp add: evaluate_images_def sel a)
  from a l two one show ?thesis by auto
qed

section \<open>Properties of the threshold selection\<close>

lemma foldl_fixed: "(\<And>i. i \<in> set xs \<Longrightarrow> f s i = s) \<Longrightarrow> foldl f s xs = s"
  by (induction xs) simp_all

lemma split_bins: "[0..<256] = [0..<25] @ 25 # [26..<229] @ 229 # [230..<256]"
  by code_simp

lemma example_hist:
  "i < 256 \<Longrightarrow> map (count_list [229, 229, 25, 25]) [0..<256] ! i
     = (if i = 25 \<or> i = 229 then 2 else 0)"
  by (simp del: upt_rec_numeral)

lemma sum_list_zero: "(\<And>i. i \<in> set xs \<Longrightarrow> f i = (0::real)) \<Longrightarrow> sum_list (map f xs) = 0"
  by (induction xs) simp_all

lemma example_mu:
  assumes h: "\<And>i. i < 256 \<Longrightarrow> h ! i = (if i = 25 \<or> i = 229 then 2 else (0::nat))"
  shows "sum_list (map (\<lambda>i. real i * real (h ! i)) [0..<256]) = 508"
proof -
  have z: "sum_list (map (\<lambda>i. real i * real (h ! i)) xs) = 0"
    if "\<And>i. i \<in> set xs \<Longrightarrow> i < 256 \<and> i \<noteq> 25 \<and> i \<noteq> 229" for xs
    by (rule sum_list_zero) (use that in \<open>simp add: h\<close>)
  have a: "sum_list (map (\<lambda>i. real i * real (h ! i)) [0..<25]) = 0"
    by (rule z) (simp del: upt_rec_numeral)
  have b: "sum_list (map (\<lambda>i. real i * real (h ! i)) [26..<229]) = 0"
    by (rule z) (simp del: upt_rec_numeral)
  have c: "sum_list (map (\<lambda>i. real i * real (h ! i)) [230..<256]) = 0"
    by (rule z) (simp del: upt_rec_numeral)
  show ?thesis
    unfolding split_bins map_append list.map sum_list_append sum_list.Cons a b c
    by (simp add: h)
qed

lemma example_fold:
  assumes h: "\<And>i. i < 256 \<Longrightarrow> h ! i = (if i = 25 \<or> i = 229 then 2 else (0::nat))"
  shows "foldl (otsu_step h (1 / 4) 127) \<lparr>mu1 = 0, q1 = 0, max_sigma = 0, max_val = 0\<rparr> [0..<256]
     = \<lparr>mu1 = 25 / 2, q1 = 1, max_sigma = 10404, max_val = 25\<rparr>"
proof -
  let ?step = "otsu_step h (1 / 4) 127"
  let ?s0 = "\<lparr>mu1 = 0, q1 = 0, max_sigma = 0, max_val = 0\<rparr>"
  let ?s1 = "\<lparr>mu1 = 25, q1 = 1 / 2, max_sigma = 10404, max_val = 25\<rparr>"
  let ?s2 = "\<lparr>mu1 = 25 / 2, q1 = 1, max_sigma = 10404, max_val = 25\<rparr>"
  have a: "foldl ?step ?s0 [0..<25] = ?s0"
    by (rule foldl_fixed) (simp add: otsu_step_def h FLT_EPSILON_def del: upt_rec_numeral)
  have b: "?step ?s0 25 = ?s1"
    by (simp add: otsu_step_def h FLT_EPSILON_def)
  have c: "foldl ?step ?s1 [26..<229] = ?s1"
    by (rule foldl_fixed) (simp add: otsu_step_def h FLT_EPSILON_def del: upt_rec_numeral)
  have d: "?step ?s1 229 = ?s2"
    by (simp add: otsu_step_def h FLT_EPSILON_def)
  have e: "foldl ?step ?s2 [230..<256] = ?s2"
    by (rule foldl_fixed) (simp add: otsu_step_def h FLT_EPSILON_def del: upt_rec_numeral)
  show ?thesis
    unfolding split_bins foldl_append foldl_Cons a b c d e ..
qed

lemma example_otsu: "getThreshVal_Otsu_8u [229, 229, 25, 25] = 25"
proof -
  have h: "map (\<lambda>i. count_list [229, 229, 25, 25] i) [0..<256] ! i
      = (if i = 25 \<or> i = 229 then 2 else (0::nat))" if "i < 256" for i
    using that by (simp del: upt_rec_numeral)
  show ?thesis
    unfolding getThreshVal_Otsu_8u_def Let_def
    by (simp add: example_mu [OF h] example_fold [OF h] del: upt_rec_numeral)
qed

lemma example_quantised: "map (\<lambda>x. to_uint8 (x * 255)) [9 / 10, 9 / 10, 1 / 10, 1 / 10] = [229, 229, 25, 25]"
  by (simp add: to_uint8_def trunc_def)

lemma example_select:
  "np_where_select \<lparr>kind = NumpyArray, shape = [2, 2], data = [9 / 10, 9 / 10, 1 / 10, 1 / 10]\<rparr>
     \<lparr>kind = NumpyArray, shape = [2, 2], data = [1, 1, 1, 1]\<rparr> = Inr [9 / 10, 9 / 10, 1 / 10, 1 / 10]"
  by code_simp

lemma spec_example_mask_fn:
  "finding_threshold_mask_fn empty_ok
     \<lparr>kind = NumpyArray, shape = [2, 2], data = [9 / 10, 9 / 10, 1 / 10, 1 / 10]\<rparr>
     \<lparr>kind = NumpyArray, shape = [2, 2], data = [1, 1, 1, 1]\<rparr> =
   Inr (25 / 255, \<lparr>kind = NumpyArray, shape = [2, 2], data = [1, 1, 1, 1]\<rparr>)"
proof -
  have t: "cv2_threshold_otsu empty_ok
      (map (\<lambda>x. to_uint8 (x * 255)) [9 / 10, 9 / 10, 1 / 10, 1 / 10]) = Inr 25"
    unfolding example_quantised by (simp add: cv2_threshold_otsu_def example_otsu)
  show ?thesis
    unfolding finding_threshold_mask_fn_def example_select ebind_def sum.case t
    by (simp add: binarize_gt_def amap_def)
qed

text \<open>
  Claim C2. On the score map \<open>[[0.9,0.9],[0.1,0.1]]\<close> with an all-ones mask the bytes
  are 229 and 25, the search returns the lower one, and the threshold is \<open>25/255\<close>,
  which is below 0.1: the scores 0.1 lie above it, and the binarised map is
  \<open>[[1,1],[1,1]]\<close>, not \<open>[[1,1],[0,0]]\<close>.
\<close>

theorem otsu_example:
  "finding_threshold_mask_fn empty_ok
     \<lparr>kind = NumpyArray, shape = [2, 2], data = [9 / 10, 9 / 10, 1 / 10, 1 / 10]\<rparr>
     \<lparr>kind = NumpyArray, shape = [2, 2], data = [1, 1, 1, 1]\<rparr> =
   Inr (25 / 255, \<lparr>kind = NumpyArray, shape = [2, 2], data = [1, 1, 1, 1]\<rparr>)
   \<and> (25 / 255 :: real) < 1 / 10"
  by (simp add: spec_example_mask_fn)

lemma finding_threshold_mask_fn_binarize:
  "finding_threshold_mask_fn empty_ok pred msk = Inr (t, b) \<Longrightarrow> b = binarize_gt t pred"
  by (auto simp: finding_threshold_mask_fn_def ebind_def split: sum.splits)

lemma otsu_step_q1:
  "q1 (otsu_step h sc mu s i) = q1 s + real (h ! i) * sc"
  by (simp add: otsu_step_def Let_def)

lemma otsu_step_max_val:
  "max_val (otsu_step h sc mu s i) = max_val s \<or> max_val (otsu_step h sc mu s i) = i"
  by (simp add: otsu_step_def Let_def)

lemma otsu_step_full:
  assumes "q1 s + real (h ! i) * sc = 1"
  shows "max_val (otsu_step h sc mu s i) = max_val s"
  using assms by (simp add: otsu_step_def Let_def FLT_EPSILON_def)

lemma otsu_fold_q1:
  "q1 (foldl (otsu_step h sc mu) s [0..<k])
     = q1 s + sum_list (map (\<lambda>j. real (h ! j)) [0..<k]) * sc"
  by (induction k) (simp_all add: otsu_step_q1 algebra_simps)

lemma otsu_fold_max_val:
  "max_val (foldl (otsu_step h sc mu) s [0..<k]) \<le> max (max_val s) (k - 1)"
proof (induction k)
  case 0
  then show ?case by simp
next
  case (Suc k)
  from otsu_step_max_val [of h sc mu "foldl (otsu_step h sc mu) s [0..<k]" k] Suc
  show ?case by auto
qed

lemma hist_total:
  assumes "\<forall>x \<in> set src. x < 256"
  shows "sum_list (map (\<lambda>j. real (map (\<lambda>i. count_list src i) [0..<256] ! j)) [0..<256])
     = real (length src)"
proof -
  have "sum_list (map (\<lambda>j. real (map (\<lambda>i. count_list src i) [0..<256] ! j)) [0..<256])
      = sum_list (map (\<lambda>j. real (count_list src j)) [0..<256])"
    by (rule map_upt_cong [THEN arg_cong]) (simp del: upt_rec_numeral)
  also have "\<dots> = real (sum (count_list src) {0..<256})"
    by (simp add: interv_sum_list_conv_sum_set_nat del: upt_rec_numeral)
  also have "sum (count_list src) {0..<256} = length src"
    by (rule sum_count_set) (use assms in auto)
  finally show ?thesis .
qed

lemma otsu_fold_last_bin:
  assumes "q1 s = 0" "sum_list (map (\<lambda>j. real (h ! j)) [0..<Suc k]) * sc = 1"
  shows "max_val (foldl (otsu_step h sc mu) s [0..<Suc k]) \<le> max (max_val s) (k - 1)"
proof -
  let ?F = "foldl (otsu_step h sc mu) s [0..<k]"
  have "q1 ?F + real (h ! k) * sc = 1"
    using assms by (simp add: otsu_fold_q1 algebra_simps)
  then have "max_val (otsu_step h sc mu ?F k) = max_val ?F"
    by (rule otsu_step_full)
  with otsu_fold_max_val [of h sc mu s k] show ?thesis by simp
qed

lemma otsu_below_255:
  assumes "src \<noteq> []" "\<forall>x \<in> set src. x < 256"
  shows "getThreshVal_Otsu_8u src < 255"
proof -
  let ?h = "map (\<lambda>i. count_list src i) [0..<256]"
  let ?sc = "1 / real (length src)"
  have bins: "[0..<256] = [0..<Suc 255]" by simp
  from assms(1) have n: "real (length src) \<noteq> 0" by simp
  have total: "sum_list (map (\<lambda>j. real (?h ! j)) [0..<Suc 255]) * ?sc = 1"
    unfolding bins [symmetric] hist_total [OF assms(2)] using n by simp
  let ?mu = "sum_list (map (\<lambda>i. real i * real (?h ! i)) [0..<256]) * ?sc"
  let ?s0 = "\<lparr>mu1 = 0, q1 = 0, max_sigma = 0, max_val = 0\<rparr>"
  have le: "max_val (foldl (otsu_step ?h ?sc ?mu) ?s0 [0..<Suc 255]) \<le> 254"
    using otsu_fold_last_bin [OF _ total, of ?s0 ?mu] by simp
  have "getThreshVal_Otsu_8u src = max_val (foldl (otsu_step ?h ?sc ?mu) ?s0 [0..<Suc 255])"
    unfolding getThreshVal_Otsu_8u_def Let_def bins ..
  with le show ?thesis by linarith
qed

lemma to_uint8_range: "to_uint8 x < 256"
  by (simp add: to_uint8_def nat_less_iff)

lemma np_where_select_length:
  assumes "np_where_select p msk = Inr s" "shape p' = shape p"
  shows "\<exists>s'. np_where_select p' msk = Inr s' \<and> length s' = length s"
proof -
  from assms(1) have "np_where_select p' msk
      = Inr (concat (map (\<lambda>idx. map (\<lambda>j. data p' ! (ravel (take (length (shape msk)) (shape p)) idx
                                       * prod_list (drop (length (shape msk)) (shape p)) + j))
                            [0..<prod_list (drop (length (shape msk)) (shape p))])
                 (map (unravel (shape msk))
                    (filter (\<lambda>k. data msk ! k > 0) [0..<prod_list (shape msk)]))))"
    by (simp add: np_where_select_def Let_def assms(2) split: if_splits)
  moreover from assms(1) have "length s = length (concat (map (\<lambda>idx. map (\<lambda>j. data p ! (ravel (take (length (shape msk)) (shape p)) idx
                                       * prod_list (drop (length (shape msk)) (shape p)) + j))
                            [0..<prod_list (drop (length (shape msk)) (shape p))])
                 (map (unravel (shape msk))
                    (filter (\<lambda>k. data msk ! k > 0) [0..<prod_list (shape msk)]))))"
    by (auto simp: np_where_select_def Let_def split: if_splits)
  ultimately show ?thesis
    by (simp add: length_concat o_def)
qed

lemma binarize_gt_fixed:
  assumes "\<forall>x \<in> set (data b). x = 0 \<or> x = 1" "0 \<le> t" "t < 1"
  shows "binarize_gt t b = b"
proof -
  have "map (\<lambda>p. of_bool (t < p) * 1) (data b) = map (\<lambda>p. p) (data b)"
    using assms by (intro map_cong refl) auto
  then show ?thesis by (simp add: binarize_gt_def amap_def)
qed

lemma binarize_gt_binary: "\<forall>x \<in> set (data (binarize_gt t p)). x = 0 \<or> x = 1"
  by (auto simp: binarize_gt_def amap_def)

lemma cv2_threshold_otsu_quantised:
  assumes "cv2_threshold_otsu empty_ok (map (\<lambda>x. to_uint8 (x * 255)) s) = Inr th"
    and "length s' = length s"
  shows "\<exists>th'. cv2_threshold_otsu empty_ok (map (\<lambda>x. to_uint8 (x * 255)) s') = Inr th' \<and> th' < 255"
proof (cases "s' = []")
  case True
  with assms show ?thesis by (auto simp: cv2_threshold_otsu_def split: if_splits)
next
  case False
  then have "getThreshVal_Otsu_8u (map (\<lambda>x. to_uint8 (x * 255)) s') < 255"
    by (intro otsu_below_255) (simp_all add: to_uint8_range)
  with False show ?thesis by (simp add: cv2_threshold_otsu_def)
qed

text \<open>
  Claim C8. When the selector returns a threshold and a binarised map, running it on
  that map with the same mask returns again, with a threshold that binarises the map
  to itself: the found level is never 255, so the new threshold lies in \<open>[0, 1)\<close>.
\<close>

theorem otsu_idempotent:
  assumes "finding_threshold_mask_fn empty_ok pred msk = Inr (t, b)"
  shows "\<exists>t'. finding_threshold_mask_fn empty_ok b msk = Inr (t', b)"
proof -
  from assms obtain s th where s: "np_where_select pred msk = Inr s"
    and th: "cv2_threshold_otsu empty_ok (map (\<lambda>x. to_uint8 (x * 255)) s) = Inr th"
    and b: "b = binarize_gt (real th / 255) pred"
    by (auto simp: finding_threshold_mask_fn_def ebind_def split: sum.splits)
  have "shape b = shape pred" by (simp add: b binarize_gt_def amap_def)
  from np_where_select_length [OF s this] obtain s' where
    s': "np_where_select b msk = Inr s'" "length s' = length s" by blast
  from cv2_threshold_otsu_quantised [OF th s'(2)] obtain th' where
    th': "cv2_threshold_otsu empty_ok (map (\<lambda>x. to_uint8 (x * 255)) s') = Inr th'" "th' < 255"
    by blast
  have "binarize_gt (real th' / 255) b = b"
    using th'(2) by (intro binarize_gt_fixed) (simp_all add: b binarize_gt_binary)
  then have "finding_threshold_mask_fn empty_ok b msk = Inr (real th' / 255, b)"
    by (simp add: finding_threshold_mask_fn_def ebind_def s'(1) th'(1))
  then show ?thesis ..
qed

theorem otsu_idempotent_witness:
  "finding_threshold_mask_fn True
     \<lparr>kind = NumpyArray, shape = [2, 2], data = [9 / 10, 9 / 10, 1 / 10, 1 / 10]\<rparr>
     \<lparr>kind = NumpyArray, shape = [2, 2], data = [1, 1, 1, 1]\<rparr> =
   Inr (25 / 255, \<lparr>kind = NumpyArray, shape = [2, 2], data = [1, 1, 1, 1]\<rparr>)
   \<and> (\<exists>t'. finding_threshold_mask_fn True
       \<lparr>kind = NumpyArray, shape = [2, 2], data = [1, 1, 1, 1]\<rparr>
       \<lparr>kind = NumpyArray, shape = [2, 2], data = [1, 1, 1, 1]\<rparr> =
     Inr (t', \<lparr>kind = NumpyArray, shape = [2, 2], data = [1, 1, 1, 1]\<rparr>))"
  using otsu_idempotent [OF spec_example_mask_fn [of True]] spec_example_mask_fn [of True]
  by simp

end
